theory Spec2Isabelle
  imports Main "HOL-Library.AList" "HOL-Library.Sublist"
begin

section \<open>Shared data model\<close>

text \<open>
  The repository is a set of FastAPI handlers that forward HTTP requests to one upstream
  API through \<^verbatim>\<open>httpx\<close>. Python \<^verbatim>\<open>str\<close> and \<^verbatim>\<open>bytes\<close> values are
  modelled as \<^typ>\<open>string\<close> (a list of 8-bit characters), status codes as \<^typ>\<open>int\<close>.
  A Python \<^verbatim>\<open>dict\<close> is an association list with distinct keys in insertion order:
  \<^verbatim>\<open>d[k] = v\<close> overwrites the value of an existing key in place and appends a new
  key at the end, which is what \<^const>\<open>AList.update\<close> does.
\<close>

type_synonym bytes = string

type_synonym pydict = "(string \<times> string) list"

definition dict_set :: "pydict \<Rightarrow> string \<Rightarrow> string \<Rightarrow> pydict" where
  "dict_set d k v = AList.update k v d"

text \<open>\<^verbatim>\<open>d.update(other)\<close>: every item of \<open>other\<close> is stored into \<open>d\<close>, in order.\<close>

definition dict_update :: "pydict \<Rightarrow> pydict \<Rightarrow> pydict" where
  "dict_update d other = fold (\<lambda>(k, v) acc. dict_set acc k v) other d"

text \<open>
  \<^verbatim>\<open>str.lower()\<close> on header names. Header names reach the application decoded as
  latin-1, so a character is a code point below 256: the upper-case letters are
  \<open>A\<close>..\<open>Z\<close> (65..90) and 192..222 without the multiplication sign 215, each 32 below
  its lower-case letter.
\<close>

definition lower_char :: "char \<Rightarrow> char" where
  "lower_char c =
     (let n = (of_char c :: nat)
      in if 65 \<le> n \<and> n \<le> 90 then char_of (n + 32)
         else if 192 \<le> n \<and> n \<le> 222 \<and> n \<noteq> 215 then char_of (n + 32)
         else c)"

definition lower :: "string \<Rightarrow> string" where
  "lower s = map lower_char s"

text \<open>JSON values, as \<^verbatim>\<open>json.loads\<close> and \<^verbatim>\<open>response.json()\<close> produce them.
  \<open>JNull\<close> is Python's \<^verbatim>\<open>None\<close>.\<close>

datatype json =
    JNull
  | JBool bool
  | JNum int
  | JStr string
  | JArr "json list"
  | JObj "(string \<times> json) list"

text \<open>
  An upstream response as \<^verbatim>\<open>httpx.Response\<close> shows it to the handlers:
  \<^verbatim>\<open>status_code\<close>, \<^verbatim>\<open>content\<close>, the items of \<^verbatim>\<open>headers\<close> (httpx builds them
  from a dict, one item per lower-cased name), and the result of \<^verbatim>\<open>json()\<close>, which
  is \<open>None\<close> when the body is not valid JSON and \<^verbatim>\<open>json()\<close> raises.
\<close>

record response =
  status_code :: int
  content :: bytes
  headers :: pydict
  json_body :: "json option"

text \<open>
  The exceptions the handlers distinguish. In httpx \<^verbatim>\<open>TimeoutException\<close> is a subclass
  of \<^verbatim>\<open>RequestError\<close>; here \<open>RequestError\<close> stands for a request error that is not a
  timeout, so the order of the \<^verbatim>\<open>except\<close> clauses is the order of the cases.
  The string is \<^verbatim>\<open>str(e)\<close>; for a status error, whose message httpx composes from
  the status line and the URL, \<open>str_exn\<close> gives a fixed text, as no handler reads it.
\<close>

datatype exn =
    TimeoutException string
  | RequestError string
  | HTTPStatusError response
  | JSONDecodeError string
  | OtherException string

fun str_exn :: "exn \<Rightarrow> string" where
  "str_exn (TimeoutException m) = m"
| "str_exn (RequestError m) = m"
| "str_exn (HTTPStatusError r) = ''HTTP status error''"
| "str_exn (JSONDecodeError m) = m"
| "str_exn (OtherException m) = m"

text \<open>One call of \<^verbatim>\<open>httpx.AsyncClient.request\<close> (or \<^verbatim>\<open>post\<close>, \<^verbatim>\<open>put\<close>,
  \<^verbatim>\<open>get\<close>) with its keyword arguments.\<close>

record outbound_call =
  call_method :: string
  call_url :: string
  call_headers :: pydict
  call_content :: "bytes option"
  call_json :: "json option"

datatype outcome = Returned response | Raised exn

text \<open>
  The upstream is a function from the call to what the call does. Every call that is
  issued is appended to a log, which is the state threaded through the handlers.
\<close>

type_synonym upstream = "outbound_call \<Rightarrow> outcome"

type_synonym call_log = "outbound_call list"

definition httpx_request :: "upstream \<Rightarrow> outbound_call \<Rightarrow> call_log \<Rightarrow> outcome \<times> call_log" where
  "httpx_request up c log = (up c, log @ [c])"

text \<open>
  What a handler gives back when it does not return a response: an
  \<^verbatim>\<open>HTTPException(status_code, detail)\<close> raised by the code, or the framework's
  \<^verbatim>\<open>RequestValidationError\<close> for a missing required parameter, answered with 422.
\<close>

datatype failure = HTTPException int string | RequestValidationError

fun failure_status :: "failure \<Rightarrow> int" where
  "failure_status (HTTPException s d) = s"
| "failure_status RequestValidationError = 422"

fun failure_detail :: "failure \<Rightarrow> string" where
  "failure_detail (HTTPException s d) = d"
| "failure_detail RequestValidationError = []"

section \<open>Generic path relay (relay_controller.py)\<close>

definition BASE_URL :: string where
  "BASE_URL = ''https://admin.todaypickup.com/v2/api-docs/''"

definition HOP_BY_HOP_HEADERS :: "string list" where
  "HOP_BY_HOP_HEADERS =
     [''connection'', ''keep-alive'', ''proxy-authenticate'', ''proxy-authorization'',
      ''te'', ''trailers'', ''transfer-encoding'', ''upgrade'', ''host'']"

text \<open>
  The incoming request: \<^verbatim>\<open>request.method\<close>, \<^verbatim>\<open>request.url.query\<close>, the list
  \<^verbatim>\<open>request.headers.items()\<close> (Starlette's headers are a multi-dict, so a name may
  occur several times) and \<^verbatim>\<open>await request.body()\<close>.
\<close>

record request =
  req_method :: string
  req_query :: string
  req_headers :: "(string \<times> string) list"
  req_body :: bytes

text \<open>The loop that fills \<^verbatim>\<open>forward_headers\<close>, started from the empty dict.\<close>

fun forward_headers_loop :: "(string \<times> string) list \<Rightarrow> pydict \<Rightarrow> pydict" where
  "forward_headers_loop [] fh = fh"
| "forward_headers_loop ((name, v) # rest) fh =
     forward_headers_loop rest
       (if lower name \<notin> set HOP_BY_HOP_HEADERS then dict_set fh name v else fh)"

definition forward_headers :: "(string \<times> string) list \<Rightarrow> pydict" where
  "forward_headers items = forward_headers_loop items []"

text \<open>The loop that fills \<^verbatim>\<open>response_headers\<close>: no name is filtered.\<close>

fun response_headers_loop :: "(string \<times> string) list \<Rightarrow> pydict \<Rightarrow> pydict" where
  "response_headers_loop [] rh = rh"
| "response_headers_loop ((name, v) # rest) rh = response_headers_loop rest (dict_set rh name v)"

definition target_url :: "request \<Rightarrow> string \<Rightarrow> string" where
  "target_url rq path =
     (let url = BASE_URL @ path
      in if req_query rq \<noteq> [] then url @ ''?'' @ req_query rq else url)"

text \<open>The arguments of the one \<^verbatim>\<open>client.request\<close> call of \<^verbatim>\<open>relay_request\<close>.\<close>

definition relay_call :: "request \<Rightarrow> string \<Rightarrow> outbound_call" where
  "relay_call rq path =
     \<lparr>call_method = req_method rq,
      call_url = target_url rq path,
      call_headers = forward_headers (req_headers rq),
      call_content = (if req_body rq \<noteq> [] then Some (req_body rq) else None),
      call_json = None\<rparr>"

text \<open>The \<^verbatim>\<open>Response(content=..., status_code=..., headers=...)\<close> the relay returns.\<close>

record local_response =
  resp_content :: bytes
  resp_status :: int
  resp_headers :: pydict

definition relay_request ::
  "upstream \<Rightarrow> request \<Rightarrow> string \<Rightarrow> call_log \<Rightarrow> (failure + local_response) \<times> call_log" where
  "relay_request up rq path log =
     (case httpx_request up (relay_call rq path) log of
        (Returned rp, log') \<Rightarrow>
          (Inr \<lparr>resp_content = content rp, resp_status = status_code rp,
                resp_headers = response_headers_loop (headers rp) []\<rparr>, log')
      | (Raised (TimeoutException e), log') \<Rightarrow>
          (Inl (HTTPException 504 (''Gateway timeout: '' @ e)), log')
      | (Raised (RequestError e), log') \<Rightarrow>
          (Inl (HTTPException 502
             (''Bad gateway: Error connecting to the upstream server. '' @ e)), log')
      | (Raised e, log') \<Rightarrow>
          (Inl (HTTPException 500 (''Internal server error: '' @ str_exn e)), log'))"

section \<open>The upstream on the wire and what httpx makes of it\<close>







section \<open>Typed transport client (today_pickup_client/client.py)\<close>

text \<open>
  \<^verbatim>\<open>TodayPickupClientBase\<close> keeps the two credentials; its httpx client is bound to
  the base URL of the settings module, which the environment may override, so the base
  URL is a field. \<open>None\<close> is Python's \<^verbatim>\<open>None\<close>.
\<close>

record client =
  auth_token :: "string option"
  agency_id :: "string option"
  base_url :: string

definition TODAY_PICKUP_BASE_URL :: string where
  "TODAY_PICKUP_BASE_URL = ''https://admin.todaypickup.com/api''"

definition TodayPickupClientBase :: "string \<Rightarrow> string option \<Rightarrow> string option \<Rightarrow> client" where
  "TodayPickupClientBase base tok aid = \<lparr>auth_token = tok, agency_id = aid, base_url = base\<rparr>"

definition AgencyApiClient :: "string \<Rightarrow> string \<Rightarrow> string \<Rightarrow> client" where
  "AgencyApiClient base tok aid = TodayPickupClientBase base (Some tok) (Some aid)"

definition MallApiClient :: "string \<Rightarrow> string \<Rightarrow> client" where
  "MallApiClient base tok = TodayPickupClientBase base (Some tok) None"

text \<open>
  The header dict of \<^verbatim>\<open>_request\<close>. \<^verbatim>\<open>if self.auth_token:\<close> is Python's truth
  test: \<^verbatim>\<open>None\<close> and the empty string both skip the branch, and so does an empty
  dict of extra headers.
\<close>

definition request_headers :: "client \<Rightarrow> pydict option \<Rightarrow> pydict" where
  "request_headers c hdrs =
     (let rh0 = [];
          rh1 = (case auth_token c of
                   None \<Rightarrow> rh0
                 | Some t \<Rightarrow> if t \<noteq> [] then dict_set rh0 ''Authorization'' t else rh0);
          rh2 = (case agency_id c of
                   None \<Rightarrow> rh1
                 | Some a \<Rightarrow> if a \<noteq> [] then dict_set rh1 ''agencyId'' a else rh1)
      in case hdrs of
           None \<Rightarrow> rh2
         | Some h \<Rightarrow> if h \<noteq> [] then dict_update rh2 h else rh2)"

text \<open>
  \<^verbatim>\<open>httpx.Response.raise_for_status()\<close> returns the response when
  \<^verbatim>\<open>is_success\<close> holds, that is for a status from 200 to 299, and raises
  \<^verbatim>\<open>HTTPStatusError\<close> carrying the response for every other status.
\<close>

definition raise_for_status :: "response \<Rightarrow> exn + response" where
  "raise_for_status r =
     (if 200 \<le> status_code r \<and> status_code r \<le> 299 then Inr r else Inl (HTTPStatusError r))"

definition response_json :: "response \<Rightarrow> exn + json" where
  "response_json r =
     (case json_body r of
        None \<Rightarrow> Inl (JSONDecodeError ''Expecting value'')
      | Some j \<Rightarrow> Inr j)"

text \<open>The call \<^verbatim>\<open>self.client.request(method, endpoint, headers=request_headers, **kwargs)\<close>;
  the httpx client joins its base URL and the endpoint.\<close>

definition client_call ::
  "client \<Rightarrow> string \<Rightarrow> string \<Rightarrow> pydict option \<Rightarrow> json option \<Rightarrow> outbound_call" where
  "client_call c method endpoint hdrs js =
     \<lparr>call_method = method,
      call_url = base_url c @ endpoint,
      call_headers = request_headers c hdrs,
      call_content = None,
      call_json = js\<rparr>"

text \<open>
  \<^verbatim>\<open>TodayPickupClientBase._request\<close>. Both \<^verbatim>\<open>except\<close> clauses re-raise, and an
  exception they do not name propagates as it is, so every exception is the result.
  Python's \<^verbatim>\<open>None\<close> for a 204 response is \<open>JNull\<close>.
\<close>

definition TodayPickupClientBase_request ::
  "upstream \<Rightarrow> client \<Rightarrow> string \<Rightarrow> string \<Rightarrow> pydict option \<Rightarrow> json option \<Rightarrow> call_log
     \<Rightarrow> (exn + json) \<times> call_log" where
  "TodayPickupClientBase_request up c method endpoint hdrs js log =
     (case httpx_request up (client_call c method endpoint hdrs js) log of
        (Raised e, log') \<Rightarrow> (Inl e, log')
      | (Returned rsp, log') \<Rightarrow>
          (case raise_for_status rsp of
             Inl e \<Rightarrow> (Inl e, log')
           | Inr ok \<Rightarrow>
               if status_code ok = 204 then (Inr JNull, log')
               else (response_json ok, log')))"


definition MallApiClient_get_delivery_by_invoice ::
  "upstream \<Rightarrow> client \<Rightarrow> string \<Rightarrow> call_log \<Rightarrow> (exn + json) \<times> call_log" where
  "MallApiClient_get_delivery_by_invoice up c invoice_number log =
     TodayPickupClientBase_request up c ''GET'' (''/mall/delivery/'' @ invoice_number)
       None None log"


record DeliveryAgencyUpdateConsignDTO =
  extOrderId :: "string option"
  invoiceNumber :: "string option"
  status :: "string option"






section \<open>Agency endpoints on the service (dependencies.py, today_pickup_agency_controller.py)\<close>

text \<open>
  A header parameter is looked up by name without regard to case; the first header
  with the name is taken.
\<close>

definition header_get :: "(string \<times> string) list \<Rightarrow> string \<Rightarrow> string option" where
  "header_get hs key = map_of (map (\<lambda>(n, v). (lower n, v)) hs) (lower key)"








text \<open>
  The request body as the framework finds it before anything else happens: no body,
  bytes that are not JSON, or a parsed JSON value. The framework reads and parses the
  body first and answers bytes that are not JSON with its validation error; it then
  resolves the dependencies, and only after them checks the parsed value against the
  model of the handler.
\<close>

datatype raw_body = NoBody | MalformedBody | JsonBody json








section \<open>Typed relay endpoints (agency_relay_controller.py, mall_relay_controller.py)\<close>

definition EXTERNAL_API_BASE_URL :: string where
  "EXTERNAL_API_BASE_URL = ''https://admin.todaypickup.com''"

text \<open>
  A parameter declared \<^verbatim>\<open>Header(...)\<close> is required: when the header is absent the
  framework answers with its validation error and the handler body does not run.
\<close>

definition required_header :: "(string \<times> string) list \<Rightarrow> string \<Rightarrow> failure + string" where
  "required_header hs name =
     (case header_get hs name of
        None \<Rightarrow> Inl RequestValidationError
      | Some v \<Rightarrow> Inr v)"

text \<open>
  The request models of the two relay controllers are classes with no field
  (\<^verbatim>\<open>class MallApiDeliveryDTO(BaseModel): pass\<close>). Validation accepts a JSON object
  and, as pydantic ignores the keys a model does not declare, builds the one instance
  there is; \<^verbatim>\<open>model_dump(by_alias=True)\<close> of it is the empty object.
\<close>

datatype MallApiDeliveryDTO = MallApiDeliveryDTO

datatype AuthAgencyDTO_relay = AuthAgencyDTO_relay

definition MallApiDeliveryDTO_validate :: "json option \<Rightarrow> failure + MallApiDeliveryDTO" where
  "MallApiDeliveryDTO_validate body =
     (case body of
        Some (JObj kvs) \<Rightarrow> Inr MallApiDeliveryDTO
      | _ \<Rightarrow> Inl RequestValidationError)"

definition MallApiDeliveryDTO_model_dump :: "MallApiDeliveryDTO \<Rightarrow> json" where
  "MallApiDeliveryDTO_model_dump d = JObj []"

definition AuthAgencyDTO_relay_validate :: "json option \<Rightarrow> failure + AuthAgencyDTO_relay" where
  "AuthAgencyDTO_relay_validate body =
     (case body of
        Some (JObj kvs) \<Rightarrow> Inr AuthAgencyDTO_relay
      | _ \<Rightarrow> Inl RequestValidationError)"

definition AuthAgencyDTO_relay_model_dump :: "AuthAgencyDTO_relay \<Rightarrow> json" where
  "AuthAgencyDTO_relay_model_dump d = JObj []"

text \<open>The \<^verbatim>\<open>Response(content=..., status_code=..., media_type=...)\<close> of these
  handlers.\<close>

record relay_response =
  rr_content :: bytes
  rr_status :: int
  rr_media_type :: "string option"

text \<open>
  The \<^verbatim>\<open>try\<close> block every handler of the two controllers ends with: the upstream's
  response is handed back, a request error (a timeout is one) and any other exception
  become a 500.
\<close>

fun relay_result :: "outcome \<Rightarrow> failure + relay_response" where
  "relay_result (Returned rsp) =
     Inr \<lparr>rr_content = content rsp, rr_status = status_code rsp,
          rr_media_type = header_get (headers rsp) ''content-type''\<rparr>"
| "relay_result (Raised (TimeoutException e)) =
     Inl (HTTPException 500 (''Error connecting to external API: '' @ e))"
| "relay_result (Raised (RequestError e)) =
     Inl (HTTPException 500 (''Error connecting to external API: '' @ e))"
| "relay_result (Raised e) =
     Inl (HTTPException 500 (''An unexpected error occurred: '' @ str_exn e))"

text \<open>agency_relay_controller.py: \<^verbatim>\<open>check_auth\<close> and \<^verbatim>\<open>auth_token\<close>.\<close>

definition agency_relay_headers :: "string \<Rightarrow> string \<Rightarrow> pydict" where
  "agency_relay_headers authorization agencyId =
     [(''Authorization'', authorization), (''agencyId'', agencyId),
      (''Content-Type'', ''application/json''), (''Accept'', ''application/json'')]"


definition auth_token_relay ::
  "upstream \<Rightarrow> (string \<times> string) list \<Rightarrow> json option \<Rightarrow> call_log
     \<Rightarrow> (failure + relay_response) \<times> call_log" where
  "auth_token_relay up hs body log =
     (case AuthAgencyDTO_relay_validate body of
        Inl f \<Rightarrow> (Inl f, log)
      | Inr auth_agency_dto \<Rightarrow>
          (case required_header hs ''authorization'' of
             Inl f \<Rightarrow> (Inl f, log)
           | Inr authorization \<Rightarrow>
               (case required_header hs ''agencyId'' of
                  Inl f \<Rightarrow> (Inl f, log)
                | Inr agencyId \<Rightarrow>
                    (case httpx_request up
                            \<lparr>call_method = ''POST'',
                             call_url = EXTERNAL_API_BASE_URL @ ''/api/agency/auth/token'',
                             call_headers = agency_relay_headers authorization agencyId,
                             call_content = None,
                             call_json =
                               Some (AuthAgencyDTO_relay_model_dump auth_agency_dto)\<rparr> log of
                       (out, log') \<Rightarrow> (relay_result out, log')))))"























text \<open>
  mall_relay_controller.py: \<^verbatim>\<open>delivery_list_register\<close> takes the model, while
  \<^verbatim>\<open>cancel_delivery\<close> reads \<^verbatim>\<open>await request.json()\<close> inside its \<^verbatim>\<open>try\<close>
  block and forwards what it read. A body that is no JSON is \<open>None\<close>.
\<close>

definition mall_relay_headers :: "string \<Rightarrow> pydict" where
  "mall_relay_headers authorization =
     [(''Authorization'', authorization), (''Content-Type'', ''application/json'')]"

definition delivery_list_register ::
  "upstream \<Rightarrow> (string \<times> string) list \<Rightarrow> json option \<Rightarrow> call_log
     \<Rightarrow> (failure + relay_response) \<times> call_log" where
  "delivery_list_register up hs body log =
     (case MallApiDeliveryDTO_validate body of
        Inl f \<Rightarrow> (Inl f, log)
      | Inr mall_delivery_dto \<Rightarrow>
          (case required_header hs ''authorization'' of
             Inl f \<Rightarrow> (Inl f, log)
           | Inr authorization \<Rightarrow>
               (case httpx_request up
                       \<lparr>call_method = ''POST'',
                        call_url = EXTERNAL_API_BASE_URL @ ''/api/mall/deliveryListRegister'',
                        call_headers = mall_relay_headers authorization,
                        call_content = None,
                        call_json =
                          Some (MallApiDeliveryDTO_model_dump mall_delivery_dto)\<rparr> log of
                  (out, log') \<Rightarrow> (relay_result out, log'))))"

definition cancel_delivery ::
  "upstream \<Rightarrow> (string \<times> string) list \<Rightarrow> json option \<Rightarrow> call_log
     \<Rightarrow> (failure + relay_response) \<times> call_log" where
  "cancel_delivery up hs body log =
     (case required_header hs ''authorization'' of
        Inl f \<Rightarrow> (Inl f, log)
      | Inr authorization \<Rightarrow>
          (case body of
             None \<Rightarrow>
               (relay_result (Raised (JSONDecodeError ''Expecting value'')), log)
           | Some request_body \<Rightarrow>
               (case httpx_request up
                       \<lparr>call_method = ''POST'',
                        call_url = EXTERNAL_API_BASE_URL @ ''/api/mall/cancelDelivery'',
                        call_headers = mall_relay_headers authorization,
                        call_content = None,
                        call_json = Some request_body\<rparr> log of
                  (out, log') \<Rightarrow> (relay_result out, log'))))"

section \<open>User service (user_service.py, user_repository.py, user_controller.py)\<close>

text \<open>
  The fields of a user row and of the creation request are those the repository and the
  service read and write. A session as the handler receives it has nothing pending.
\<close>

record User =
  user_id :: nat
  email :: string
  username :: string
  hashed_password :: string

record UserCreate =
  uc_email :: string
  uc_username :: string
  uc_password :: string

text \<open>
  The database session: the committed rows of the user table and the objects added
  since the last commit or rollback.
\<close>

record session =
  rows :: "User list"
  pending :: "(string \<times> string \<times> string) list"

datatype db_exn = IntegrityError

datatype user_error = ValueError string | InvalidRequestError

text \<open>
  Modelled from the spec: the table declaration (app/models/user.py) is not among the
  sources. The spec says that email and username are unique, so an insert is refused
  when a committed row has the same email or the same username. The key is the
  smallest number above every key in the table.
\<close>

definition unique_violation :: "User list \<Rightarrow> string \<Rightarrow> string \<Rightarrow> bool" where
  "unique_violation tbl e u = list_ex (\<lambda>r. email r = e \<or> username r = u) tbl"

definition fresh_id :: "User list \<Rightarrow> nat" where
  "fresh_id tbl = Suc (fold max (map user_id tbl) 0)"

fun flush :: "(string \<times> string \<times> string) list \<Rightarrow> User list \<Rightarrow> db_exn + User list" where
  "flush [] tbl = Inr tbl"
| "flush ((e, u, h) # ps) tbl =
     (if unique_violation tbl e u then Inl IntegrityError
      else flush ps
             (tbl @ [\<lparr>user_id = fresh_id tbl, email = e, username = u,
                      hashed_password = h\<rparr>]))"

definition db_add :: "session \<Rightarrow> string \<times> string \<times> string \<Rightarrow> session" where
  "db_add s obj = s\<lparr>pending := pending s @ [obj]\<rparr>"

definition db_commit :: "session \<Rightarrow> db_exn + session" where
  "db_commit s =
     (case flush (pending s) (rows s) of
        Inl x \<Rightarrow> Inl x
      | Inr tbl \<Rightarrow> Inr \<lparr>rows = tbl, pending = []\<rparr>)"

definition db_rollback :: "session \<Rightarrow> session" where
  "db_rollback s = s\<lparr>pending := []\<rparr>"

text \<open>\<^verbatim>\<open>db.refresh(user)\<close> reloads the row of the object and raises when there is none.\<close>

definition db_refresh :: "session \<Rightarrow> string \<Rightarrow> string \<Rightarrow> User option" where
  "db_refresh s e u = find (\<lambda>r. email r = e \<and> username r = u) (rows s)"

text \<open>The message of the \<^verbatim>\<open>ValueError\<close>, a Korean sentence, as its UTF-8 bytes.\<close>

definition duplicate_user_message :: string where
  "duplicate_user_message =
     map char_of
       [(236::nat), 157, 180, 235, 175, 184, 32, 236, 161, 180, 236, 158, 172, 237, 149, 152,
        235, 138, 148, 32, 236, 157, 180, 235, 169, 148, 236, 157, 188, 32, 235, 152,
        144, 235, 138, 148, 32, 236, 130, 172, 236, 154, 169, 236, 158, 144, 32, 236,
        157, 180, 235, 166, 132, 236, 158, 133, 235, 139, 136, 235, 139, 164, 46]"

definition UserRepository_create ::
  "session \<Rightarrow> string \<Rightarrow> string \<Rightarrow> string \<Rightarrow> (user_error + User) \<times> session" where
  "UserRepository_create s e u h =
     (let s1 = db_add s (e, u, h)
      in case db_commit s1 of
           Inl IntegrityError \<Rightarrow> (Inl (ValueError duplicate_user_message), db_rollback s1)
         | Inr s2 \<Rightarrow>
             (case db_refresh s2 e u of
                None \<Rightarrow> (Inl InvalidRequestError, s2)
              | Some user \<Rightarrow> (Inr user, s2)))"

text \<open>
  \<^verbatim>\<open>_hash_password\<close> is \<^verbatim>\<open>hashlib.sha256(password.encode()).hexdigest()\<close>; the
  digest function is the parameter \<open>sha256_hexdigest\<close>.
\<close>

definition UserService_create_user ::
  "(string \<Rightarrow> string) \<Rightarrow> session \<Rightarrow> UserCreate \<Rightarrow> (user_error + User) \<times> session" where
  "UserService_create_user sha256_hexdigest s user_data =
     (let hashed = sha256_hexdigest (uc_password user_data)
      in UserRepository_create s (uc_email user_data) (uc_username user_data) hashed)"

text \<open>The handler turns the \<^verbatim>\<open>ValueError\<close> into a 400; another exception is the
  framework's 500.\<close>

definition UserController_create_user ::
  "(string \<Rightarrow> string) \<Rightarrow> session \<Rightarrow> UserCreate \<Rightarrow> (failure + User) \<times> session" where
  "UserController_create_user sha256_hexdigest s user_data =
     (case UserService_create_user sha256_hexdigest s user_data of
        (Inr user, s') \<Rightarrow> (Inr user, s')
      | (Inl (ValueError m), s') \<Rightarrow> (Inl (HTTPException 400 m), s')
      | (Inl InvalidRequestError, s') \<Rightarrow>
          (Inl (HTTPException 500 ''Internal Server Error''), s'))"

section \<open>Example inputs\<close>

definition example_request :: request where
  "example_request =
     \<lparr>req_method = ''GET'', req_query = ''param1=value1&param2=value2'',
      req_headers =
        [(''Host'', ''testserver''), (''x-client-header'', ''ClientValue''),
         (''Connection'', ''keep-alive''), (''accept'', ''application/json'')],
      req_body = []\<rparr>"

definition example_response :: response where
  "example_response =
     \<lparr>status_code = 201, content = ''{}'',
      headers = [(''x-created-id'', ''123''), (''content-type'', ''application/json'')],
      json_body = Some (JObj [])\<rparr>"

definition redirect_response :: response where
  "redirect_response =
     \<lparr>status_code = 302, content = ''{}'',
      headers = [(''location'', ''/login''), (''content-type'', ''application/json'')],
      json_body = Some (JObj [])\<rparr>"

definition html_response :: response where
  "html_response =
     \<lparr>status_code = 200, content = ''<html></html>'',
      headers = [(''content-type'', ''text/html'')],
      json_body = None\<rparr>"

definition upstream_returns :: "response \<Rightarrow> upstream" where
  "upstream_returns r = (\<lambda>c. Returned r)"

definition upstream_raises :: "exn \<Rightarrow> upstream" where
  "upstream_raises e = (\<lambda>c. Raised e)"






definition example_body :: json where
  "example_body = JObj [(''dawnDelivery'', JStr ''Y''), (''goodsList'', JArr [])]"

definition example_user :: UserCreate where
  "example_user =
     \<lparr>uc_email = ''a@example.com'', uc_username = ''alice'', uc_password = ''secret''\<rparr>"

definition example_session :: session where
  "example_session =
     \<lparr>rows = [\<lparr>user_id = 1, email = ''b@example.com'', username = ''bob'',
               hashed_password = ''0a''\<rparr>],
      pending = []\<rparr>"

definition example_digest :: "string \<Rightarrow> string" where
  "example_digest p = ''digest-of-'' @ p"

section \<open>Facts about dicts\<close>

lemma update_absent_append:
  "k \<notin> fst ` set al \<Longrightarrow> AList.update k v al = al @ [(k, v)]"
  by (induction al) auto

lemma update_key_set: "fst ` set (AList.update k v al) = insert k (fst ` set al)"
  by (induction al) auto

lemma map_of_dict_set: "map_of (dict_set d k v) = (map_of d)(k \<mapsto> v)"
  by (simp only: dict_set_def AList.update_conv')

lemma map_of_rev_filter_keys:
  "map_of (rev (filter (\<lambda>h. P (fst h)) hs)) n = (if P n then map_of (rev hs) n else None)"
proof -
  have "rev (filter (\<lambda>h. P (fst h)) hs) = filter (\<lambda>h. P (fst h)) (rev hs)"
    by (simp add: rev_filter)
  then show ?thesis by (simp add: map_of_filter restrict_map_def)
qed

lemma lower_examples:
  "lower ''Host'' = ''host''"
  "lower ''Connection'' = ''connection''"
  "lower ''x-client-header'' = ''x-client-header''"
  "lower ''accept'' = ''accept''"
  "lower ''x-tag'' = ''x-tag''"
  by code_simp+


lemma sublist_of_prefix: "sublist p (p @ s)"
  using sublist_appendI [of p "[]" s] by simp

section \<open>The generic relay: outbound call\<close>

lemma relay_request_log: "snd (relay_request up rq path log) = log @ [relay_call rq path]"
  by (simp add: relay_request_def httpx_request_def split: outcome.splits exn.splits)

text \<open>
  C8. For every request to the generic relay with remaining path \<open>path\<close> and query
  string \<open>req_query rq\<close>, the relay issues exactly one outbound call. Its URL is the fixed
  base followed by the path, and by a question mark and the query string exactly when
  the query string is not empty; its method is the method of the incoming request; its
  body is the incoming body when that is not empty and no body otherwise.
\<close>

theorem relay_request_single_call:
  "snd (relay_request up rq path log) = log @ [relay_call rq path]
   \<and> call_method (relay_call rq path) = req_method rq
   \<and> call_url (relay_call rq path) =
       BASE_URL @ path @ (if req_query rq = [] then [] else ''?'' @ req_query rq)
   \<and> call_content (relay_call rq path) =
       (if req_body rq = [] then None else Some (req_body rq))"
  by (simp add: relay_request_log relay_call_def target_url_def)

section \<open>The generic relay: header filter\<close>

lemma forward_headers_loop_map_of:
  "map_of (forward_headers_loop hs fh) =
     map_of fh ++ map_of (rev (filter (\<lambda>h. lower (fst h) \<notin> set HOP_BY_HOP_HEADERS) hs))"
proof (induction hs arbitrary: fh)
  case Nil
  then show ?case by simp
next
  case (Cons h hs)
  obtain n v where h: "h = (n, v)" by (cases h)
  show ?case
  proof (cases "lower n \<in> set HOP_BY_HOP_HEADERS")
    case True
    then show ?thesis by (simp add: h Cons.IH)
  next
    case False
    have "forward_headers_loop (h # hs) fh = forward_headers_loop hs (dict_set fh n v)"
      using False by (simp add: h)
    then have "map_of (forward_headers_loop (h # hs) fh) =
            (map_of fh)(n \<mapsto> v) ++
              map_of (rev (filter (\<lambda>h. lower (fst h) \<notin> set HOP_BY_HOP_HEADERS) hs))"
      by (simp only: Cons.IH map_of_dict_set)
    also have "\<dots> = map_of fh ++
        (map_of [(n, v)] ++
           map_of (rev (filter (\<lambda>h. lower (fst h) \<notin> set HOP_BY_HOP_HEADERS) hs)))"
      by (rule ext) (simp add: map_add_def split: option.splits)
    finally show ?thesis using False by (simp add: h)
  qed
qed

lemma forward_headers_loop_distinct:
  "distinct (map fst (fh @ hs)) \<Longrightarrow>
     forward_headers_loop hs fh =
       fh @ filter (\<lambda>h. lower (fst h) \<notin> set HOP_BY_HOP_HEADERS) hs"
proof (induction hs arbitrary: fh)
  case Nil
  then show ?case by simp
next
  case (Cons h hs)
  obtain n v where h: "h = (n, v)" by (cases h)
  from Cons.prems have absent: "n \<notin> fst ` set fh" by (auto simp: h)
  show ?case
  proof (cases "lower n \<in> set HOP_BY_HOP_HEADERS")
    case True
    from Cons.prems have "distinct (map fst (fh @ hs))" by (simp add: h)
    then show ?thesis using True by (simp add: h Cons.IH)
  next
    case False
    from Cons.prems have "distinct (map fst ((fh @ [(n, v)]) @ hs))" by (simp add: h)
    then have "forward_headers_loop hs (fh @ [(n, v)]) =
        (fh @ [(n, v)]) @ filter (\<lambda>h. lower (fst h) \<notin> set HOP_BY_HOP_HEADERS) hs"
      by (rule Cons.IH)
    then show ?thesis using False absent
      by (simp add: h dict_set_def update_absent_append)
  qed
qed

text \<open>
  C2, as the claim states it, fails: the inbound headers are a list in which a name may
  occur twice, the outbound headers are a dict, and of two inbound headers with one name
  only the later one is forwarded. Here the header \<open>x-tag: a\<close> is not in the exclusion
  list and is not in the outbound headers.
\<close>

theorem forward_headers_duplicate_counterexample:
  "(''x-tag'', ''a'') \<in> set [(''x-tag'', ''a''), (''x-tag'', ''b'')]
   \<and> lower ''x-tag'' \<notin> set HOP_BY_HOP_HEADERS
   \<and> (''x-tag'', ''a'') \<notin> set (forward_headers [(''x-tag'', ''a''), (''x-tag'', ''b'')])
   \<and> forward_headers [(''x-tag'', ''a''), (''x-tag'', ''b'')] = [(''x-tag'', ''b'')]"
  by (simp add: forward_headers_def dict_set_def lower_examples HOP_BY_HOP_HEADERS_def)

text \<open>
  C2, amended. For every list of inbound headers and every name \<open>n\<close>: when the
  lower-cased name is in the exclusion list the outbound headers have no header of that
  name; otherwise the outbound headers carry under \<open>n\<close> the value of the last inbound
  header of that name (and nothing when there is none). When no name occurs twice in
  the inbound headers, the outbound headers are the inbound headers without the
  excluded ones, names and values unchanged and in the same order.
\<close>

theorem forward_headers_last_value:
  "map_of (forward_headers hs) n =
     (if lower n \<in> set HOP_BY_HOP_HEADERS then None else map_of (rev hs) n)
   \<and> (distinct (map fst hs) \<longrightarrow>
        forward_headers hs = filter (\<lambda>h. lower (fst h) \<notin> set HOP_BY_HOP_HEADERS) hs)"
proof -
  have "map_of (forward_headers hs) n =
          map_of (rev (filter (\<lambda>h. lower (fst h) \<notin> set HOP_BY_HOP_HEADERS) hs)) n"
    by (simp add: forward_headers_def forward_headers_loop_map_of)
  also have "\<dots> = (if lower n \<notin> set HOP_BY_HOP_HEADERS then map_of (rev hs) n else None)"
    by (rule map_of_rev_filter_keys)
  finally have a: "map_of (forward_headers hs) n =
     (if lower n \<in> set HOP_BY_HOP_HEADERS then None else map_of (rev hs) n)"
    by simp
  have b: "distinct (map fst hs) \<longrightarrow>
        forward_headers hs = filter (\<lambda>h. lower (fst h) \<notin> set HOP_BY_HOP_HEADERS) hs"
    using forward_headers_loop_distinct [of "[]" hs] by (simp add: forward_headers_def)
  from a b show ?thesis by blast
qed

lemma example_request_headers_distinct: "distinct (map fst (req_headers example_request))"
  by (simp add: example_request_def)

theorem forward_headers_last_value_witness:
  "distinct (map fst (req_headers example_request))
   \<and> map_of (forward_headers (req_headers example_request)) ''Host'' = None
   \<and> map_of (forward_headers (req_headers example_request)) ''x-client-header''
       = Some ''ClientValue''
   \<and> forward_headers (req_headers example_request) =
       [(''x-client-header'', ''ClientValue''), (''accept'', ''application/json'')]"
proof -
  have d: "distinct (map fst (req_headers example_request))"
    by (rule example_request_headers_distinct)
  have h: "map_of (forward_headers (req_headers example_request)) ''Host'' = None"
    using forward_headers_last_value [of "req_headers example_request" "''Host''"]
    by (simp add: lower_examples HOP_BY_HOP_HEADERS_def)
  have x: "map_of (forward_headers (req_headers example_request)) ''x-client-header''
             = Some ''ClientValue''"
    using forward_headers_last_value [of "req_headers example_request" "''x-client-header''"]
    by (simp add: lower_examples HOP_BY_HOP_HEADERS_def example_request_def)
  have "forward_headers (req_headers example_request) =
          filter (\<lambda>h. lower (fst h) \<notin> set HOP_BY_HOP_HEADERS) (req_headers example_request)"
    using forward_headers_last_value [of "req_headers example_request" "''Host''"] d
    by blast
  then have f: "forward_headers (req_headers example_request) =
       [(''x-client-header'', ''ClientValue''), (''accept'', ''application/json'')]"
    by (simp add: example_request_def lower_examples HOP_BY_HOP_HEADERS_def)
  from d h x f show ?thesis by blast
qed

section \<open>The generic relay: response and failures\<close>


lemma response_headers_loop_keys:
  "fst ` set (response_headers_loop xs acc) = fst ` set acc \<union> fst ` set xs"
proof (induction xs arbitrary: acc)
  case Nil
  then show ?case by simp
next
  case (Cons x xs)
  obtain n v where x: "x = (n, v)" by (cases x)
  show ?case by (simp add: x dict_set_def Cons.IH update_key_set)
qed








lemma relay_request_timeout:
  "up (relay_call rq path) = Raised (TimeoutException e) \<Longrightarrow>
     fst (relay_request up rq path log) = Inl (HTTPException 504 (''Gateway timeout: '' @ e))"
  by (simp add: relay_request_def httpx_request_def)

lemma relay_request_request_error:
  "up (relay_call rq path) = Raised (RequestError e) \<Longrightarrow>
     fst (relay_request up rq path log) =
       Inl (HTTPException 502 (''Bad gateway: Error connecting to the upstream server. '' @ e))"
  by (simp add: relay_request_def httpx_request_def)

lemma relay_request_unexpected:
  "up (relay_call rq path) = Raised x \<Longrightarrow>
   (\<forall>m. x \<noteq> TimeoutException m) \<Longrightarrow> (\<forall>m. x \<noteq> RequestError m) \<Longrightarrow>
     fst (relay_request up rq path log) =
       Inl (HTTPException 500 (''Internal server error: '' @ str_exn x))"
  by (cases x) (simp_all add: relay_request_def httpx_request_def)

text \<open>
  C4. For every request to the generic relay: when the outbound call raises a timeout
  the relay raises an HTTP exception with status 504 whose detail contains
  \<open>Gateway timeout\<close>; when it raises another request error, one with status 502 whose
  detail contains \<open>Bad gateway\<close>; when it raises anything else, one with status 500
  whose detail contains \<open>Internal server error\<close>. In every case the log holds the one
  outbound call and nothing more: there is no retry.
\<close>

theorem relay_request_failure_mapping:
  "(up (relay_call rq path) = Raised (TimeoutException e) \<longrightarrow>
      (\<exists>d. fst (relay_request up rq path log) = Inl (HTTPException 504 d)
           \<and> sublist ''Gateway timeout'' d))
   \<and> (up (relay_call rq path) = Raised (RequestError e) \<longrightarrow>
      (\<exists>d. fst (relay_request up rq path log) = Inl (HTTPException 502 d)
           \<and> sublist ''Bad gateway'' d))
   \<and> (up (relay_call rq path) = Raised x
        \<and> (\<forall>m. x \<noteq> TimeoutException m) \<and> (\<forall>m. x \<noteq> RequestError m) \<longrightarrow>
      (\<exists>d. fst (relay_request up rq path log) = Inl (HTTPException 500 d)
           \<and> sublist ''Internal server error'' d))
   \<and> snd (relay_request up rq path log) = log @ [relay_call rq path]"
proof -
  have t: "sublist ''Gateway timeout'' (''Gateway timeout: '' @ e)"
    using sublist_of_prefix [of "''Gateway timeout''" "'': '' @ e"] by simp
  have b: "sublist ''Bad gateway''
             (''Bad gateway: Error connecting to the upstream server. '' @ e)"
    using sublist_of_prefix
      [of "''Bad gateway''" "'': Error connecting to the upstream server. '' @ e"]
    by simp
  have i: "sublist ''Internal server error'' (''Internal server error: '' @ str_exn x)"
    using sublist_of_prefix [of "''Internal server error''" "'': '' @ str_exn x"] by simp
  have c1: "up (relay_call rq path) = Raised (TimeoutException e) \<longrightarrow>
      (\<exists>d. fst (relay_request up rq path log) = Inl (HTTPException 504 d)
           \<and> sublist ''Gateway timeout'' d)"
    using t relay_request_timeout [of up rq path e log] by blast
  have c2: "up (relay_call rq path) = Raised (RequestError e) \<longrightarrow>
      (\<exists>d. fst (relay_request up rq path log) = Inl (HTTPException 502 d)
           \<and> sublist ''Bad gateway'' d)"
    using b relay_request_request_error [of up rq path e log] by blast
  have c3: "up (relay_call rq path) = Raised x
        \<and> (\<forall>m. x \<noteq> TimeoutException m) \<and> (\<forall>m. x \<noteq> RequestError m) \<longrightarrow>
      (\<exists>d. fst (relay_request up rq path log) = Inl (HTTPException 500 d)
           \<and> sublist ''Internal server error'' d)"
    using i relay_request_unexpected [of up rq path x log] by blast
  from c1 c2 c3 relay_request_log [of up rq path log] show ?thesis by blast
qed

theorem relay_request_failure_mapping_witness:
  "failure_status (projl (fst (relay_request (upstream_raises (TimeoutException ''timed out''))
      example_request ''some/path'' []))) = 504
   \<and> failure_status (projl (fst (relay_request (upstream_raises (RequestError ''refused''))
      example_request ''some/path'' []))) = 502
   \<and> failure_status (projl (fst (relay_request (upstream_raises (OtherException ''boom''))
      example_request ''some/path'' []))) = 500
   \<and> length (snd (relay_request (upstream_raises (TimeoutException ''timed out''))
      example_request ''some/path'' [])) = 1"
proof -
  have a: "failure_status (projl (fst (relay_request
             (upstream_raises (TimeoutException ''timed out''))
             example_request ''some/path'' []))) = 504
           \<and> length (snd (relay_request (upstream_raises (TimeoutException ''timed out''))
             example_request ''some/path'' [])) = 1"
    using relay_request_failure_mapping
      [of "upstream_raises (TimeoutException ''timed out'')" example_request "''some/path''"
          "''timed out''" "[]" "TimeoutException ''timed out''"]
    by (auto simp: upstream_raises_def)
  have b: "failure_status (projl (fst (relay_request
             (upstream_raises (RequestError ''refused''))
             example_request ''some/path'' []))) = 502"
    using relay_request_failure_mapping
      [of "upstream_raises (RequestError ''refused'')" example_request "''some/path''"
          "''refused''" "[]" "RequestError ''refused''"]
    by (auto simp: upstream_raises_def)
  have c: "failure_status (projl (fst (relay_request
             (upstream_raises (OtherException ''boom''))
             example_request ''some/path'' []))) = 500"
    using relay_request_failure_mapping
      [of "upstream_raises (OtherException ''boom'')" example_request "''some/path''"
          "''x''" "[]" "OtherException ''boom''"]
    by (auto simp: upstream_raises_def)
  from a b c show ?thesis by blast
qed

section \<open>The transport client\<close>

lemma client_request_log:
  "snd (TodayPickupClientBase_request up c m ep hdrs js log) = log @ [client_call c m ep hdrs js]"
  by (simp add: TodayPickupClientBase_request_def httpx_request_def
           split: outcome.splits sum.splits)

lemma client_request_result:
  "fst (TodayPickupClientBase_request up c m ep hdrs js log) =
     (case up (client_call c m ep hdrs js) of
        Raised e \<Rightarrow> Inl e
      | Returned r \<Rightarrow>
          if 200 \<le> status_code r \<and> status_code r \<le> 299
          then (if status_code r = 204 then Inr JNull else response_json r)
          else Inl (HTTPStatusError r))"
  by (simp add: TodayPickupClientBase_request_def httpx_request_def raise_for_status_def
           split: outcome.splits)

text \<open>
  C10. For every call of the transport client's request operation in which the upstream
  returns a response whose status is not 204 and whose body is not valid JSON, the
  operation raises an exception and returns nothing; when the status is a success
  status (200 to 299) the exception is the JSON decoding error of
  \<^verbatim>\<open>response.json()\<close>.
\<close>

theorem client_request_invalid_json_raises:
  assumes "up (client_call c m ep hdrs js) = Returned r"
    and "status_code r \<noteq> 204"
    and "json_body r = None"
  shows "(\<exists>e. fst (TodayPickupClientBase_request up c m ep hdrs js log) = Inl e)
       \<and> (200 \<le> status_code r \<and> status_code r \<le> 299 \<longrightarrow>
            (\<exists>msg. fst (TodayPickupClientBase_request up c m ep hdrs js log)
                     = Inl (JSONDecodeError msg)))"
  using assms by (simp add: client_request_result response_json_def)

theorem client_request_invalid_json_raises_witness:
  "upstream_returns html_response
       (client_call (MallApiClient TODAY_PICKUP_BASE_URL ''fake_mall_token'') ''GET''
          ''/mall/delivery/INV001'' None None) = Returned html_response
   \<and> status_code html_response \<noteq> 204
   \<and> json_body html_response = None
   \<and> 200 \<le> status_code html_response \<and> status_code html_response \<le> 299
   \<and> fst (TodayPickupClientBase_request (upstream_returns html_response)
            (MallApiClient TODAY_PICKUP_BASE_URL ''fake_mall_token'') ''GET''
            ''/mall/delivery/INV001'' None None [])
       = Inl (JSONDecodeError ''Expecting value'')"
proof -
  have u: "upstream_returns html_response
       (client_call (MallApiClient TODAY_PICKUP_BASE_URL ''fake_mall_token'') ''GET''
          ''/mall/delivery/INV001'' None None) = Returned html_response"
    by (simp add: upstream_returns_def)
  have s: "status_code html_response \<noteq> 204" by (simp add: html_response_def)
  have j: "json_body html_response = None" by (simp add: html_response_def)
  have ok: "200 \<le> status_code html_response \<and> status_code html_response \<le> 299"
    by (simp add: html_response_def)
  from client_request_invalid_json_raises
         [of "upstream_returns html_response"
             "MallApiClient TODAY_PICKUP_BASE_URL ''fake_mall_token''" "''GET''"
             "''/mall/delivery/INV001''" None None html_response "[]"] u s j ok
  obtain msg where m: "fst (TodayPickupClientBase_request (upstream_returns html_response)
            (MallApiClient TODAY_PICKUP_BASE_URL ''fake_mall_token'') ''GET''
            ''/mall/delivery/INV001'' None None []) = Inl (JSONDecodeError msg)"
    by blast
  then have "msg = ''Expecting value''"
    by (simp add: client_request_result u j ok s response_json_def)
  with u s j ok m show ?thesis by simp
qed

text \<open>
  C6 at a redirect. The claim says that every status that is neither 204 nor at least
  400 yields the parsed JSON body. The upstream here answers 302 with the JSON body
  \<open>{}\<close>; \<^verbatim>\<open>raise_for_status\<close> raises for a status outside 200..299, so the
  operation raises the status error and does not return the parsed body.
\<close>

theorem client_request_redirect_raises:
  "fst (TodayPickupClientBase_request (upstream_returns redirect_response)
          (MallApiClient TODAY_PICKUP_BASE_URL ''fake_mall_token'') ''GET''
          ''/mall/delivery/INV001'' None None [])
     = Inl (HTTPStatusError redirect_response)
   \<and> status_code redirect_response = 302
   \<and> json_body redirect_response = Some (JObj [])"
  by (simp add: client_request_result upstream_returns_def redirect_response_def)

lemma map_of_dict_update: "map_of (dict_update d h) = map_of d ++ map_of (rev h)"
  unfolding dict_update_def
proof (induction h arbitrary: d)
  case Nil
  then show ?case by simp
next
  case (Cons x xs)
  obtain k v where x: "x = (k, v)" by (cases x)
  have "fold (\<lambda>(k, v) acc. dict_set acc k v) (x # xs) d =
          fold (\<lambda>(k, v) acc. dict_set acc k v) xs (dict_set d k v)"
    by (simp add: x)
  then have "map_of (fold (\<lambda>(k, v) acc. dict_set acc k v) (x # xs) d) =
          (map_of d)(k \<mapsto> v) ++ map_of (rev xs)"
    by (simp only: Cons.IH map_of_dict_set)
  also have "\<dots> = map_of d ++ (map_of [(k, v)] ++ map_of (rev xs))"
    by (rule ext) (simp add: map_add_def split: option.splits)
  finally show ?case by (simp add: x)
qed

lemma request_headers_Some:
  "request_headers c (Some h) = dict_update (request_headers c None) h"
  by (simp add: request_headers_def dict_update_def Let_def)

lemma request_headers_merge:
  "map_of (request_headers c (Some h)) = map_of (request_headers c None) ++ map_of (rev h)"
  by (simp only: request_headers_Some map_of_dict_update)

lemma request_headers_token:
  "auth_token c = Some t \<Longrightarrow> t \<noteq> [] \<Longrightarrow>
     map_of (request_headers c None) ''Authorization'' = Some t"
  by (simp add: request_headers_def dict_set_def Let_def split: option.splits)

lemma request_headers_agency:
  "agency_id c = Some a \<Longrightarrow> a \<noteq> [] \<Longrightarrow>
     map_of (request_headers c None) ''agencyId'' = Some a"
  by (simp add: request_headers_def dict_set_def Let_def split: option.splits)

lemma request_headers_explicit:
  "distinct (map fst h) \<Longrightarrow> (k, v) \<in> set h \<Longrightarrow>
     map_of (request_headers c (Some h)) k = Some v"
proof -
  assume d: "distinct (map fst h)" and m: "(k, v) \<in> set h"
  from d have "distinct (map fst (rev h))" by (simp add: rev_map [symmetric])
  moreover from m have "(k, v) \<in> set (rev h)" by simp
  ultimately have "map_of (rev h) k = Some v" by (rule map_of_is_SomeI)
  then show ?thesis by (simp add: request_headers_merge)
qed

lemma request_headers_kept:
  "k \<notin> fst ` set h \<Longrightarrow>
     map_of (request_headers c (Some h)) k = map_of (request_headers c None) k"
proof -
  assume "k \<notin> fst ` set h"
  then have "map_of (rev h) k = None" by (simp add: map_of_eq_None_iff)
  then show ?thesis by (simp add: request_headers_merge map_add_def)
qed

lemma mall_get_delivery_call:
  "t \<noteq> [] \<Longrightarrow>
     snd (MallApiClient_get_delivery_by_invoice up (MallApiClient base t) invoice log) =
       log @ [\<lparr>call_method = ''GET'', call_url = base @ ''/mall/delivery/'' @ invoice,
               call_headers = [(''Authorization'', t)], call_content = None,
               call_json = None\<rparr>]"
  by (simp add: MallApiClient_get_delivery_by_invoice_def client_request_log client_call_def
        MallApiClient_def TodayPickupClientBase_def request_headers_def dict_set_def)

text \<open>
  C7. Every request operation of the transport client issues one outbound call whose
  headers are the dict \<open>request_headers\<close>. Without explicit headers it holds the
  token under \<open>Authorization\<close> when a (non-empty) token was given at construction and the
  tenant id under \<open>agencyId\<close> when a (non-empty) tenant id was given. Explicit headers
  are merged on top: a name among them carries the explicit value, every other name
  keeps the injected value. A mall client built from a token alone issues, for the
  delivery of an invoice, a GET of \<open>/mall/delivery/<invoice>\<close> under the base URL whose
  only header is \<open>Authorization\<close> with the token.
\<close>

theorem client_request_credential_headers:
  "snd (TodayPickupClientBase_request up c m ep hdrs js log) = log @ [client_call c m ep hdrs js]
   \<and> call_headers (client_call c m ep hdrs js) = request_headers c hdrs
   \<and> (auth_token c = Some t \<and> t \<noteq> [] \<longrightarrow>
        map_of (request_headers c None) ''Authorization'' = Some t)
   \<and> (agency_id c = Some a \<and> a \<noteq> [] \<longrightarrow>
        map_of (request_headers c None) ''agencyId'' = Some a)
   \<and> (distinct (map fst h) \<and> (k, v) \<in> set h \<longrightarrow>
        map_of (request_headers c (Some h)) k = Some v)
   \<and> (k \<notin> fst ` set h \<longrightarrow>
        map_of (request_headers c (Some h)) k = map_of (request_headers c None) k)
   \<and> (t \<noteq> [] \<longrightarrow>
        snd (MallApiClient_get_delivery_by_invoice up (MallApiClient base t) invoice log) =
          log @ [\<lparr>call_method = ''GET'', call_url = base @ ''/mall/delivery/'' @ invoice,
                  call_headers = [(''Authorization'', t)], call_content = None,
                  call_json = None\<rparr>])"
  using client_request_log [of up c m ep hdrs js log]
    request_headers_token [of c t] request_headers_agency [of c a]
    request_headers_explicit [of h k v c] request_headers_kept [of k h c]
    mall_get_delivery_call [of t up base invoice log]
  by (simp add: client_call_def)

section \<open>Credentials and typed relay bodies\<close>

theorem client_request_credential_headers_witness:
  "snd (MallApiClient_get_delivery_by_invoice (upstream_returns example_response)
          (MallApiClient TODAY_PICKUP_BASE_URL ''fake_mall_token'') ''INV001'' [])
     = [\<lparr>call_method = ''GET'',
         call_url = ''https://admin.todaypickup.com/api/mall/delivery/INV001'',
         call_headers = [(''Authorization'', ''fake_mall_token'')],
         call_content = None, call_json = None\<rparr>]
   \<and> map_of (request_headers
         (AgencyApiClient TODAY_PICKUP_BASE_URL ''fake_token'' ''fake_agency_id'') None)
         ''Authorization'' = Some ''fake_token''
   \<and> map_of (request_headers
         (AgencyApiClient TODAY_PICKUP_BASE_URL ''fake_token'' ''fake_agency_id'') None)
         ''agencyId'' = Some ''fake_agency_id''
   \<and> map_of (request_headers
         (AgencyApiClient TODAY_PICKUP_BASE_URL ''fake_token'' ''fake_agency_id'')
         (Some [(''Authorization'', ''other'')])) ''Authorization'' = Some ''other''
   \<and> map_of (request_headers
         (AgencyApiClient TODAY_PICKUP_BASE_URL ''fake_token'' ''fake_agency_id'')
         (Some [(''Authorization'', ''other'')])) ''agencyId'' = Some ''fake_agency_id''"
proof -
  let ?ag = "AgencyApiClient TODAY_PICKUP_BASE_URL ''fake_token'' ''fake_agency_id''"
  have tok: "auth_token ?ag = Some ''fake_token''" and aid: "agency_id ?ag = Some ''fake_agency_id''"
    by (simp_all add: AgencyApiClient_def TodayPickupClientBase_def)
  have m: "snd (MallApiClient_get_delivery_by_invoice (upstream_returns example_response)
          (MallApiClient TODAY_PICKUP_BASE_URL ''fake_mall_token'') ''INV001'' [])
     = [\<lparr>call_method = ''GET'',
         call_url = TODAY_PICKUP_BASE_URL @ ''/mall/delivery/'' @ ''INV001'',
         call_headers = [(''Authorization'', ''fake_mall_token'')],
         call_content = None, call_json = None\<rparr>]"
    using client_request_credential_headers
      [of "upstream_returns example_response" ?ag "''GET''" "''/x''" None None "[]"
          "''fake_mall_token''" "''a''" "[]" "''k''" "''v''" TODAY_PICKUP_BASE_URL "''INV001''"]
    by simp
  have a: "map_of (request_headers ?ag None) ''Authorization'' = Some ''fake_token''
         \<and> map_of (request_headers ?ag None) ''agencyId'' = Some ''fake_agency_id''
         \<and> map_of (request_headers ?ag (Some [(''Authorization'', ''other'')])) ''Authorization''
             = Some ''other''"
    using client_request_credential_headers
      [of "upstream_returns example_response" ?ag "''GET''" "''/x''" None None "[]"
          "''fake_token''" "''fake_agency_id''" "[(''Authorization'', ''other'')]"
          "''Authorization''" "''other''" TODAY_PICKUP_BASE_URL "''INV001''"] tok aid
    by simp
  have b: "map_of (request_headers ?ag (Some [(''Authorization'', ''other'')])) ''agencyId''
             = map_of (request_headers ?ag None) ''agencyId''"
    using client_request_credential_headers
      [of "upstream_returns example_response" ?ag "''GET''" "''/x''" None None "[]"
          "''fake_token''" "''fake_agency_id''" "[(''Authorization'', ''other'')]"
          "''agencyId''" "''other''" TODAY_PICKUP_BASE_URL "''INV001''"]
    by simp
  from m a b show ?thesis by (simp add: TODAY_PICKUP_BASE_URL_def)
qed

lemma lower_header_names:
  "lower ''authorization'' = ''authorization''"
  "lower ''agencyId'' = ''agencyid''"
  "lower ''agencyid'' = ''agencyid''"
  "lower ''Authorization'' = ''authorization''"
  by code_simp+


















text \<open>
  C1 at a request with two fields. The models of the relay controllers declare no
  field, so the body forwarded by \<open>delivery_list_register\<close> and by the agency
  \<open>auth_token\<close> handler is the empty object whatever the incoming object holds, while
  \<open>cancel_delivery\<close>, which reads the raw JSON, forwards the incoming body unchanged.
\<close>

theorem delivery_list_register_drops_fields:
  "map call_json (snd (delivery_list_register up [(''authorization'', ''Bearer testtoken'')]
       (Some example_body) [])) = [Some (JObj [])]
   \<and> map call_json (snd (cancel_delivery up [(''authorization'', ''Bearer testtoken'')]
       (Some example_body) [])) = [Some example_body]
   \<and> map call_json (snd (auth_token_relay up
       [(''authorization'', ''Bearer existingtoken''), (''agencyid'', ''agency001'')]
       (Some (JObj [(''accessKey'', JStr ''key'')])) [])) = [Some (JObj [])]
   \<and> example_body \<noteq> JObj []"
  by (simp add: delivery_list_register_def cancel_delivery_def auth_token_relay_def
        MallApiDeliveryDTO_validate_def MallApiDeliveryDTO_model_dump_def
        AuthAgencyDTO_relay_validate_def AuthAgencyDTO_relay_model_dump_def
        required_header_def header_get_def lower_header_names httpx_request_def
        example_body_def)

section \<open>User creation\<close>

lemma find_appended_row:
  "\<not> list_ex (\<lambda>r. email r = e \<or> username r = u) tbl \<Longrightarrow> email x = e \<Longrightarrow> username x = u \<Longrightarrow>
     find (\<lambda>r. email r = e \<and> username r = u) (tbl @ [x]) = Some x"
  by (induction tbl) auto

lemma create_duplicate:
  assumes "pending s = []" and "unique_violation (rows s) e u"
  shows "UserRepository_create s e u h = (Inl (ValueError duplicate_user_message), s)"
proof -
  have "db_commit (db_add s (e, u, h)) = Inl IntegrityError"
    using assms by (simp add: db_commit_def db_add_def)
  moreover have "db_rollback (db_add s (e, u, h)) = s"
    using assms(1) by (cases s) (simp add: db_rollback_def db_add_def)
  ultimately show ?thesis by (simp add: UserRepository_create_def)
qed

lemma create_fresh:
  assumes "pending s = []" and "\<not> unique_violation (rows s) e u"
  shows "UserRepository_create s e u h =
           (Inr \<lparr>user_id = fresh_id (rows s), email = e, username = u, hashed_password = h\<rparr>,
            s\<lparr>rows := rows s @ [\<lparr>user_id = fresh_id (rows s), email = e, username = u,
                                  hashed_password = h\<rparr>]\<rparr>)"
proof -
  let ?row = "\<lparr>user_id = fresh_id (rows s), email = e, username = u, hashed_password = h\<rparr>"
  have c: "db_commit (db_add s (e, u, h)) = Inr \<lparr>rows = rows s @ [?row], pending = []\<rparr>"
    using assms by (simp add: db_commit_def db_add_def)
  have r: "db_refresh \<lparr>rows = rows s @ [?row], pending = []\<rparr> e u = Some ?row"
    using assms(2) find_appended_row [of e u "rows s" ?row]
    by (simp add: db_refresh_def unique_violation_def)
  have "\<lparr>rows = rows s @ [?row], pending = []\<rparr> = s\<lparr>rows := rows s @ [?row]\<rparr>"
    using assms(1) by (cases s) simp
  with c r show ?thesis by (simp add: UserRepository_create_def)
qed

text \<open>
  C9. On a session with nothing pending, creating a user whose email or username is
  already in the table fails with the \<^verbatim>\<open>ValueError\<close> of the repository (a 400 at the
  handler, not a transport error) and leaves the session, table included, as it was;
  otherwise the table gains exactly one row, which holds the given email and username
  and, as its password field, the digest of the given password.
\<close>

theorem create_user_hashes_and_rolls_back:
  assumes "pending s = []"
  shows "(unique_violation (rows s) (uc_email d) (uc_username d) \<longrightarrow>
            UserService_create_user sha256_hexdigest s d
              = (Inl (ValueError duplicate_user_message), s)
            \<and> UserController_create_user sha256_hexdigest s d
              = (Inl (HTTPException 400 duplicate_user_message), s))
       \<and> (\<not> unique_violation (rows s) (uc_email d) (uc_username d) \<longrightarrow>
            UserService_create_user sha256_hexdigest s d =
              (Inr \<lparr>user_id = fresh_id (rows s), email = uc_email d, username = uc_username d,
                    hashed_password = sha256_hexdigest (uc_password d)\<rparr>,
               s\<lparr>rows := rows s @
                    [\<lparr>user_id = fresh_id (rows s), email = uc_email d,
                      username = uc_username d,
                      hashed_password = sha256_hexdigest (uc_password d)\<rparr>]\<rparr>))"
  using create_duplicate [OF assms, of "uc_email d" "uc_username d"
                             "sha256_hexdigest (uc_password d)"]
    create_fresh [OF assms, of "uc_email d" "uc_username d" "sha256_hexdigest (uc_password d)"]
  by (simp add: UserService_create_user_def UserController_create_user_def)

theorem create_user_hashes_and_rolls_back_witness:
  "pending example_session = []
   \<and> UserService_create_user example_digest example_session example_user
       = (Inr \<lparr>user_id = 2, email = ''a@example.com'', username = ''alice'',
               hashed_password = ''digest-of-secret''\<rparr>,
          \<lparr>rows = [\<lparr>user_id = 1, email = ''b@example.com'', username = ''bob'',
                     hashed_password = ''0a''\<rparr>,
                   \<lparr>user_id = 2, email = ''a@example.com'', username = ''alice'',
                     hashed_password = ''digest-of-secret''\<rparr>],
            pending = []\<rparr>)
   \<and> UserController_create_user example_digest example_session
         (example_user\<lparr>uc_username := ''bob''\<rparr>)
       = (Inl (HTTPException 400 duplicate_user_message), example_session)"
proof -
  have p: "pending example_session = []" by (simp add: example_session_def)
  have v1: "\<not> unique_violation (rows example_session) (uc_email example_user)
              (uc_username example_user)"
    by (simp add: unique_violation_def example_session_def example_user_def)
  have v2: "unique_violation (rows example_session)
              (uc_email (example_user\<lparr>uc_username := ''bob''\<rparr>))
              (uc_username (example_user\<lparr>uc_username := ''bob''\<rparr>))"
    by (simp add: unique_violation_def example_session_def example_user_def)
  have f: "fresh_id (rows example_session) = 2"
    by (simp add: fresh_id_def example_session_def)
  have a: "UserService_create_user example_digest example_session example_user
       = (Inr \<lparr>user_id = 2, email = ''a@example.com'', username = ''alice'',
               hashed_password = ''digest-of-secret''\<rparr>,
          \<lparr>rows = [\<lparr>user_id = 1, email = ''b@example.com'', username = ''bob'',
                     hashed_password = ''0a''\<rparr>,
                   \<lparr>user_id = 2, email = ''a@example.com'', username = ''alice'',
                     hashed_password = ''digest-of-secret''\<rparr>],
            pending = []\<rparr>)"
    using create_user_hashes_and_rolls_back [OF p, of example_user example_digest] v1 f
    by (simp add: example_session_def example_user_def example_digest_def)
  have b: "UserController_create_user example_digest example_session
         (example_user\<lparr>uc_username := ''bob''\<rparr>)
       = (Inl (HTTPException 400 duplicate_user_message), example_session)"
    using create_user_hashes_and_rolls_back
            [OF p, of "example_user\<lparr>uc_username := ''bob''\<rparr>" example_digest] v2
    by blast
  from p a b show ?thesis by blast
qed

end
